theory Spec2Isabelle
  imports Main
begin

section \<open>Values exchanged with the terminal framework\<close>

text \<open>
  A \<open>tea.Cmd\<close> is kept as the term the code builds: one constructor for each command
  constructor the file tree calls, one for the timer command that
  \<open>list.NewStatusMessage\<close> returns, one for \<open>textinput.Blink\<close>, and \<open>tea.Sequentially\<close> and
  \<open>tea.Batch\<close> over their argument lists in argument order. What the scheduler of the
  framework does with a command is outside the repository. The type variable \<open>'w\<close> stands
  for the commands and messages of the list and text-input widgets, which the bubbles
  pass on without looking into them.

  Modelled from the spec: the command constructors (\<open>getDirectoryListingCmd\<close>,
  \<open>copyItemCmd\<close>, \<open>zipItemCmd\<close>, \<open>unzipItemCmd\<close>, \<open>createFileCmd\<close>, \<open>createDirectoryCmd\<close>,
  \<open>deleteItemCmd\<close>, \<open>copyToClipboardCmd\<close>) are declared in a file that is not part of the
  sources at hand; each is the collaborator operation of the same name applied to the
  arguments the call site passes.
\<close>

datatype 'w Cmd =
    NilCmd
  | Blink
  | getDirectoryListingCmd string bool
  | copyItemCmd string
  | zipItemCmd string
  | unzipItemCmd string
  | createFileCmd string
  | createDirectoryCmd string
  | deleteItemCmd string
  | copyToClipboardCmd string
  | statusMessageCmd string
  | WidgetCmd 'w
  | Sequentially "'w Cmd list"
  | Batch "'w Cmd list"

text \<open>A widget hands back \<open>nil\<close> or a command of its own.\<close>

fun widgetCmd :: "'w option \<Rightarrow> 'w Cmd" where
  "widgetCmd None = NilCmd"
| "widgetCmd (Some w) = WidgetCmd w"

text \<open>
  Modelled from the spec: the declaration of \<open>Item\<close> is not part of the sources at hand.
  The code reads its \<open>FileName\<close>; the spec gives an entry a display name, a path and
  metadata. \<open>Item{}\<close> is the value with every field empty.
\<close>

record Item =
  DisplayName :: string
  FileName :: string
  Metadata :: string

definition emptyItem :: Item where
  "emptyItem = \<lparr>DisplayName = [], FileName = [], Metadata = []\<rparr>"

text \<open>
  A value of the interface \<open>list.Item\<close> has a dynamic type: \<open>Item\<close>, or some other type
  that implements the interface (kept by its filter value).
\<close>

datatype list_Item = ItemValue Item | OtherValue string

text \<open>
  The messages \<open>Update\<close> switches on. \<open>getDirectoryListingMsg\<close> is a slice, which can be
  \<open>nil\<close> (\<open>None\<close>); \<open>errorMsg\<close> is kept by the string its \<open>Error()\<close> returns; a key message by
  the string \<open>key.Matches\<close> compares.
\<close>

datatype 'w Msg =
    getDirectoryListingMsg "list_Item list option"
  | copyToClipboardMsg string
  | errorMsg string
  | KeyMsg string
  | WidgetMsg 'w

section \<open>The widgets of the bubbles library\<close>

text \<open>
  The list and the text input come from a library outside the repository. The model
  keeps the fields the file tree reads and writes through the setters and getters it
  calls; the \<open>Update\<close> methods of the widgets and \<open>SetItems\<close> are collaborators, passed as
  parameters below. Filtering of the list is not modelled: the selected item is the one
  of \<open>items\<close> at the cursor, \<open>nil\<close> when the cursor is outside.
\<close>

record list_Model =
  items :: "list_Item list"
  cursor :: nat
  statusMessage :: string

definition SelectedItem :: "list_Model \<Rightarrow> list_Item option" where
  "SelectedItem l = (if cursor l < length (items l) then Some (items l ! cursor l) else None)"

definition NewStatusMessage :: "list_Model \<Rightarrow> string \<Rightarrow> list_Model \<times> 'w Cmd" where
  "NewStatusMessage l s = (l\<lparr>statusMessage := s\<rparr>, statusMessageCmd s)"

record textinput_Model =
  focus :: bool
  text_value :: string
  Placeholder :: string

definition Focused :: "textinput_Model \<Rightarrow> bool" where
  "Focused m = focus m"

definition Focus :: "textinput_Model \<Rightarrow> textinput_Model" where
  "Focus m = m\<lparr>focus := True\<rparr>"

definition Blur :: "textinput_Model \<Rightarrow> textinput_Model" where
  "Blur m = m\<lparr>focus := False\<rparr>"

definition Reset :: "textinput_Model \<Rightarrow> textinput_Model" where
  "Reset m = m\<lparr>text_value := []\<rparr>"

definition Value :: "textinput_Model \<Rightarrow> string" where
  "Value m = text_value m"

text \<open>
  \<open>key.Matches\<close>: the key string is one of the keys of the binding, and the binding is
  enabled.
\<close>

record Binding =
  binding_keys :: "string list"
  disabled :: bool

definition key_Matches :: "string \<Rightarrow> Binding \<Rightarrow> bool" where
  "key_Matches k b \<longleftrightarrow> k \<in> set (binding_keys b) \<and> \<not> disabled b"

text \<open>
  \<open>strings.ToLower\<close>: a string of ASCII bytes has its upper-case letters replaced; any
  other string goes through the Unicode tables, a parameter here.
\<close>

definition isASCII :: "char \<Rightarrow> bool" where
  "isASCII c \<longleftrightarrow> (of_char c :: nat) < 128"

definition asciiLower :: "char \<Rightarrow> char" where
  "asciiLower c =
     (if (65::nat) \<le> of_char c \<and> (of_char c :: nat) \<le> 90 then char_of (of_char c + (32::nat)) else c)"

definition strings_ToLower :: "(string \<Rightarrow> string) \<Rightarrow> string \<Rightarrow> string" where
  "strings_ToLower unicodeLower s =
     (if list_all isASCII s then map asciiLower s else unicodeLower s)"

section \<open>The file tree bubble\<close>

datatype State = idleState | createFileState | createDirectoryState | deleteItemState

text \<open>The fields of \<open>Bubble\<close> that the code at hand reads and writes.\<close>

record Bubble =
  state :: State
  list :: list_Model
  input :: textinput_Model
  showHidden :: bool

text \<open>
  What the code uses and the sources at hand do not declare: the key bindings, the two
  directory constants of \<open>dirfs\<close>, the two styling functions for status messages, and the
  collaborators named above.
\<close>

record KeyMap =
  openDirectoryKey :: Binding
  copyItemKey :: Binding
  zipItemKey :: Binding
  unzipItemKey :: Binding
  createFileKey :: Binding
  createDirectoryKey :: Binding
  deleteItemKey :: Binding
  toggleHiddenKey :: Binding
  homeShortcutKey :: Binding
  copyToClipboardKey :: Binding
  escapeKey :: Binding
  submitInputKey :: Binding

record 'w Env =
  keyMap :: KeyMap
  CurrentDirectory :: string
  HomeDirectory :: string
  statusMessageInfoStyle :: "string \<Rightarrow> string"
  statusMessageErrorStyle :: "string \<Rightarrow> string"
  unicodeLower :: "string \<Rightarrow> string"
  list_SetItems :: "list_Model \<Rightarrow> list_Item list \<Rightarrow> list_Model \<times> 'w option"
  list_Update :: "list_Model \<Rightarrow> 'w Msg \<Rightarrow> list_Model \<times> 'w option"
  input_Update :: "textinput_Model \<Rightarrow> 'w Msg \<Rightarrow> textinput_Model \<times> 'w option"

text \<open>\<open>GetSelectedItem\<close>: the type assertion with \<open>ok\<close>, and \<open>Item{}\<close> when it fails.\<close>

definition GetSelectedItem :: "Bubble \<Rightarrow> Item" where
  "GetSelectedItem b =
     (case SelectedItem (list b) of
        Some (ItemValue selectedDir) \<Rightarrow> selectedDir
      | _ \<Rightarrow> emptyItem)"

text \<open>
  The expressionless \<open>switch\<close> over the key takes the first case whose \<open>key.Matches\<close> holds.
\<close>

datatype KeyCase =
    OpenDirectory | CopyItem | ZipItem | UnzipItem | CreateFile | CreateDirectory
  | DeleteItem | ToggleHidden | HomeShortcut | CopyToClipboard | Escape | SubmitInput
  | NoCase

definition keyCase :: "KeyMap \<Rightarrow> string \<Rightarrow> KeyCase" where
  "keyCase km k =
     (if key_Matches k (openDirectoryKey km) then OpenDirectory
      else if key_Matches k (copyItemKey km) then CopyItem
      else if key_Matches k (zipItemKey km) then ZipItem
      else if key_Matches k (unzipItemKey km) then UnzipItem
      else if key_Matches k (createFileKey km) then CreateFile
      else if key_Matches k (createDirectoryKey km) then CreateDirectory
      else if key_Matches k (deleteItemKey km) then DeleteItem
      else if key_Matches k (toggleHiddenKey km) then ToggleHidden
      else if key_Matches k (homeShortcutKey km) then HomeShortcut
      else if key_Matches k (copyToClipboardKey km) then CopyToClipboard
      else if key_Matches k (escapeKey km) then Escape
      else if key_Matches k (submitInputKey km) then SubmitInput
      else NoCase)"

text \<open>
  The last \<open>switch\<close> of \<open>Update\<close>: the message goes to the list in the idle state and to the
  text input in the other three, and the command of the widget is appended.
\<close>

definition forward :: "'w Env \<Rightarrow> Bubble \<Rightarrow> 'w Msg \<Rightarrow> 'w Cmd list \<Rightarrow> Bubble \<times> 'w Cmd" where
  "forward env b msg cmds =
     (case state b of
        idleState \<Rightarrow>
          (let (l, cmd) = list_Update env (list b) msg
           in (b\<lparr>list := l\<rparr>, Batch (cmds @ [widgetCmd cmd])))
      | _ \<Rightarrow>
          (let (i, cmd) = input_Update env (input b) msg
           in (b\<lparr>input := i\<rparr>, Batch (cmds @ [widgetCmd cmd]))))"

definition refresh :: "'w Env \<Rightarrow> Bubble \<Rightarrow> 'w Cmd" where
  "refresh env b = getDirectoryListingCmd (CurrentDirectory env) (showHidden b)"

text \<open>The cases of the key \<open>switch\<close>, in the order of the source.\<close>

definition onKey :: "'w Env \<Rightarrow> Bubble \<Rightarrow> 'w Msg \<Rightarrow> KeyCase \<Rightarrow> Bubble \<times> 'w Cmd" where
  "onKey env b msg c =
     (case c of
        OpenDirectory \<Rightarrow>
          (if \<not> Focused (input b)
           then forward env b msg
                  [getDirectoryListingCmd (FileName (GetSelectedItem b)) (showHidden b)]
           else forward env b msg [])
      | CopyItem \<Rightarrow>
          (if \<not> Focused (input b)
           then (let selectedItem = GetSelectedItem b;
                     (l, statusCmd) = NewStatusMessage (list b)
                        (statusMessageInfoStyle env ''Successfully copied file'')
                 in forward env (b\<lparr>list := l\<rparr>) msg
                      [Sequentially [copyItemCmd (FileName selectedItem), refresh env b],
                       statusCmd])
           else forward env b msg [])
      | ZipItem \<Rightarrow>
          (if \<not> Focused (input b)
           then (let selectedItem = GetSelectedItem b;
                     (l, statusCmd) = NewStatusMessage (list b)
                        (statusMessageInfoStyle env ''Successfully zipped item'')
                 in forward env (b\<lparr>list := l\<rparr>) msg
                      [Sequentially [zipItemCmd (FileName selectedItem), refresh env b],
                       statusCmd])
           else forward env b msg [])
      | UnzipItem \<Rightarrow>
          (if \<not> Focused (input b)
           then (let selectedItem = GetSelectedItem b;
                     (l, statusCmd) = NewStatusMessage (list b)
                        (statusMessageInfoStyle env ''Successfully unzipped item'')
                 in forward env (b\<lparr>list := l\<rparr>) msg
                      [Sequentially [unzipItemCmd (FileName selectedItem), refresh env b],
                       statusCmd])
           else forward env b msg [])
      | CreateFile \<Rightarrow>
          (if \<not> Focused (input b)
           then (b\<lparr>input := (Focus (input b))\<lparr>Placeholder := ''Enter name of new file''\<rparr>,
                    state := createFileState\<rparr>, Blink)
           else forward env b msg [])
      | CreateDirectory \<Rightarrow>
          (if \<not> Focused (input b)
           then (b\<lparr>input := (Focus (input b))\<lparr>Placeholder := ''Enter name of new directory''\<rparr>,
                    state := createDirectoryState\<rparr>, Blink)
           else forward env b msg [])
      | DeleteItem \<Rightarrow>
          (if \<not> Focused (input b)
           then (b\<lparr>input := (Focus (input b))
                      \<lparr>Placeholder := ''Are you sure you want to delete (y/n)?''\<rparr>,
                    state := deleteItemState\<rparr>, Blink)
           else forward env b msg [])
      | ToggleHidden \<Rightarrow>
          (if \<not> Focused (input b)
           then (let b' = b\<lparr>showHidden := \<not> showHidden b\<rparr>
                 in forward env b' msg [refresh env b'])
           else forward env b msg [])
      | HomeShortcut \<Rightarrow>
          (if \<not> Focused (input b)
           then forward env b msg [getDirectoryListingCmd (HomeDirectory env) (showHidden b)]
           else forward env b msg [])
      | CopyToClipboard \<Rightarrow>
          (if \<not> Focused (input b)
           then forward env b msg [copyToClipboardCmd (FileName (GetSelectedItem b))]
           else forward env b msg [])
      | Escape \<Rightarrow>
          (if Focused (input b)
           then forward env (b\<lparr>input := Blur (Reset (input b)), state := idleState\<rparr>) msg []
           else forward env b msg [])
      | SubmitInput \<Rightarrow>
          (case state b of
             idleState \<Rightarrow> (b, NilCmd)
           | createFileState \<Rightarrow>
               (let (l, statusCmd) = NewStatusMessage (list b)
                      (statusMessageInfoStyle env ''Successfully created file'')
                in forward env (b\<lparr>list := l, input := Reset (Blur (input b))\<rparr>) msg
                     [Sequentially [createFileCmd (Value (input b)), refresh env b],
                      statusCmd])
           | createDirectoryState \<Rightarrow>
               (let (l, statusCmd) = NewStatusMessage (list b)
                      (statusMessageInfoStyle env ''Successfully created directory'')
                in forward env (b\<lparr>list := l, input := Reset (Blur (input b))\<rparr>) msg
                     [statusCmd,
                      Sequentially [createDirectoryCmd (Value (input b)), refresh env b]])
           | deleteItemState \<Rightarrow>
               (if strings_ToLower (unicodeLower env) (Value (input b)) = ''y''
                then (let selectedDir = GetSelectedItem b;
                          (l, statusCmd) = NewStatusMessage (list b)
                             (statusMessageInfoStyle env ''Successfully deleted item'')
                      in forward env (b\<lparr>list := l, input := Reset (Blur (input b))\<rparr>) msg
                           [statusCmd,
                            Sequentially [deleteItemCmd (FileName selectedDir), refresh env b]])
                else forward env (b\<lparr>input := Reset (Blur (input b))\<rparr>) msg []))
      | NoCase \<Rightarrow> forward env b msg [])"

text \<open>
  \<open>Update\<close> of the file tree. In the two early returns the call of \<open>NewStatusMessage\<close>
  comes before the bubble is copied out, so the bubble that is returned has the status
  message set on its list.
\<close>

definition Bubble_Update :: "'w Env \<Rightarrow> Bubble \<Rightarrow> 'w Msg \<Rightarrow> Bubble \<times> 'w Cmd" where
  "Bubble_Update env b msg =
     (case msg of
        getDirectoryListingMsg listing \<Rightarrow>
          (case listing of
             Some its \<Rightarrow>
               (let (l, cmd) = list_SetItems env (list b) its
                in forward env (b\<lparr>list := l\<rparr>) msg [widgetCmd cmd])
           | None \<Rightarrow> forward env b msg [])
      | copyToClipboardMsg s \<Rightarrow>
          (let (l, cmd) = NewStatusMessage (list b) (statusMessageInfoStyle env s)
           in (b\<lparr>list := l\<rparr>, cmd))
      | errorMsg e \<Rightarrow>
          (let (l, cmd) = NewStatusMessage (list b) (statusMessageErrorStyle env e)
           in (b\<lparr>list := l\<rparr>, cmd))
      | KeyMsg k \<Rightarrow> onKey env b msg (keyCase (keyMap env) k)
      | WidgetMsg w \<Rightarrow> forward env b msg [])"

section \<open>Reading a command\<close>

text \<open>
  The operations of a command in the order of its term: \<open>Sequentially\<close> and \<open>Batch\<close> are
  opened, every other command is one operation.
\<close>

fun leaves :: "'w Cmd \<Rightarrow> 'w Cmd list" where
  "leaves (Sequentially cs) = concat (map leaves cs)"
| "leaves (Batch cs) = concat (map leaves cs)"
| "leaves c = [c]"

fun isListing :: "'w Cmd \<Rightarrow> bool" where
  "isListing (getDirectoryListingCmd name hidden) = True"
| "isListing c = False"

text \<open>The operations that change the file system.\<close>

fun isMutation :: "'w Cmd \<Rightarrow> bool" where
  "isMutation (copyItemCmd name) = True"
| "isMutation (zipItemCmd name) = True"
| "isMutation (unzipItemCmd name) = True"
| "isMutation (createFileCmd name) = True"
| "isMutation (createDirectoryCmd name) = True"
| "isMutation (deleteItemCmd name) = True"
| "isMutation c = False"

fun isDelete :: "'w Cmd \<Rightarrow> bool" where
  "isDelete (deleteItemCmd name) = True"
| "isDelete c = False"

text \<open>
  A command batches the pair "mutation \<open>m\<close>, then refresh \<open>r\<close>" and holds no other
  mutation and no other directory listing.
\<close>

definition mutatesThenRefreshes :: "'w Cmd \<Rightarrow> 'w Cmd \<Rightarrow> 'w Cmd \<Rightarrow> bool" where
  "mutatesThenRefreshes m r c \<longleftrightarrow>
     (case c of Batch cs \<Rightarrow> count_list cs (Sequentially [m, r]) = 1 | _ \<Rightarrow> False) \<and>
     filter isMutation (leaves c) = [m] \<and>
     filter isListing (leaves c) = [r]"

text \<open>A run of the bubble over a list of messages, keeping the bubble.\<close>

fun run :: "'w Env \<Rightarrow> Bubble \<Rightarrow> 'w Msg list \<Rightarrow> Bubble" where
  "run env b [] = b"
| "run env b (msg # msgs) = run env (fst (Bubble_Update env b msg)) msgs"

section \<open>The help bubble\<close>

text \<open>
  The styling library is outside the repository: a style is the record of the
  properties the builders set, and \<open>Render\<close>, \<open>JoinHorizontal\<close> and \<open>JoinVertical\<close> are
  parameters: a value of \<open>Lipgloss\<close> is the renderer of the process at the time of a call,
  with the colour profile of the terminal it has detected or been given.
\<close>

record AdaptiveColor =
  Light :: string
  Dark :: string

record TitleColor =
  Background :: AdaptiveColor
  Foreground :: AdaptiveColor

record Entry =
  Key :: string
  Description :: string

datatype Border = NormalBorder | HiddenBorder

datatype Position = Top | Center | Bottom

record Style =
  bold :: bool
  italic :: bool
  foreground :: "AdaptiveColor option"
  background :: "AdaptiveColor option"
  style_width :: int
  style_height :: int
  border :: "Border option"
  borderTop :: bool
  borderRight :: bool
  borderBottom :: bool
  borderLeft :: bool
  paddingTop :: int
  paddingRight :: int
  paddingBottom :: int
  paddingLeft :: int

definition NewStyle :: Style where
  "NewStyle = \<lparr>bold = False, italic = False, foreground = None, background = None,
     style_width = 0, style_height = 0, border = None,
     borderTop = False, borderRight = False, borderBottom = False, borderLeft = False,
     paddingTop = 0, paddingRight = 0, paddingBottom = 0, paddingLeft = 0\<rparr>"

text \<open>\<open>Border\<close> without sides sets all four; \<open>Padding\<close> with two values is vertical, horizontal.\<close>

definition Style_Border :: "Border \<Rightarrow> Style \<Rightarrow> Style" where
  "Style_Border b s =
     s\<lparr>border := Some b, borderTop := True, borderRight := True, borderBottom := True,
       borderLeft := True\<rparr>"

definition Style_Padding :: "int \<Rightarrow> int \<Rightarrow> Style \<Rightarrow> Style" where
  "Style_Padding v h s =
     s\<lparr>paddingTop := v, paddingRight := h, paddingBottom := v, paddingLeft := h\<rparr>"

record Lipgloss =
  Render :: "Style \<Rightarrow> string \<Rightarrow> string"
  JoinHorizontal :: "Position \<Rightarrow> string list \<Rightarrow> string"
  JoinVertical :: "Position \<Rightarrow> string list \<Rightarrow> string"

definition keyWidth :: int where
  "keyWidth = 12"

definition white_on_dark :: AdaptiveColor where
  "white_on_dark = \<lparr>Light = ''#000000'', Dark = ''#ffffff''\<rparr>"

text \<open>The body of the loop of \<open>generateHelpScreen\<close>: one row and a line feed.\<close>

definition helpRow :: "Lipgloss \<Rightarrow> Entry \<Rightarrow> string" where
  "helpRow lg content =
     (let keyText = Render lg
            (NewStyle\<lparr>bold := True, foreground := Some white_on_dark, style_width := keyWidth\<rparr>)
            (Key content);
          descriptionText = Render lg (NewStyle\<lparr>foreground := Some white_on_dark\<rparr>)
            (Description content);
          row = JoinHorizontal lg Top [keyText, descriptionText]
      in row @ [CHR 0x0A])"

fun helpRows :: "Lipgloss \<Rightarrow> Entry list \<Rightarrow> string \<Rightarrow> string" where
  "helpRows lg [] helpScreen = helpScreen"
| "helpRows lg (content # entries) helpScreen =
     helpRows lg entries (helpScreen @ helpRow lg content)"

definition generateHelpScreen ::
    "Lipgloss \<Rightarrow> string \<Rightarrow> TitleColor \<Rightarrow> Entry list \<Rightarrow> int \<Rightarrow> int \<Rightarrow> string" where
  "generateHelpScreen lg title titleColor entries width height =
     (let helpScreen = helpRows lg entries [];
          titleText = Render lg
            ((Style_Padding 0 1
                (Style_Border NormalBorder
                   (NewStyle\<lparr>bold := True,
                      background := Some (Background titleColor),
                      foreground := Some (Foreground titleColor)\<rparr>)))
               \<lparr>italic := True, borderBottom := True, borderTop := False,
                 borderRight := False, borderLeft := False\<rparr>)
            title
      in Render lg (NewStyle\<lparr>style_width := width, style_height := height\<rparr>)
           (JoinVertical lg Top [titleText, helpScreen]))"

text \<open>
  The four styles \<open>generateHelpScreen\<close> renders with: the key column, the description,
  the title and the frame.
\<close>

definition usedStyles :: "TitleColor \<Rightarrow> int \<Rightarrow> int \<Rightarrow> Style list" where
  "usedStyles titleColor width height =
     [NewStyle\<lparr>bold := True, foreground := Some white_on_dark, style_width := keyWidth\<rparr>,
      NewStyle\<lparr>foreground := Some white_on_dark\<rparr>,
      (Style_Padding 0 1
         (Style_Border NormalBorder
            (NewStyle\<lparr>bold := True,
               background := Some (Background titleColor),
               foreground := Some (Foreground titleColor)\<rparr>)))
        \<lparr>italic := True, borderBottom := True, borderTop := False,
          borderRight := False, borderLeft := False\<rparr>,
      NewStyle\<lparr>style_width := width, style_height := height\<rparr>]"

text \<open>
  Two renderers render alike for a call when they agree on these styles and on the two
  joins at the top position.
\<close>

definition rendersAlike :: "Lipgloss \<Rightarrow> Lipgloss \<Rightarrow> TitleColor \<Rightarrow> int \<Rightarrow> int \<Rightarrow> bool" where
  "rendersAlike lg1 lg2 titleColor width height \<longleftrightarrow>
     (\<forall>st \<in> set (usedStyles titleColor width height). \<forall>t. Render lg1 st t = Render lg2 st t) \<and>
     (\<forall>xs. JoinHorizontal lg1 Top xs = JoinHorizontal lg2 Top xs) \<and>
     (\<forall>xs. JoinVertical lg1 Top xs = JoinVertical lg2 Top xs)"

text \<open>The help bubble; \<open>'v\<close> is the viewport widget, whose \<open>Update\<close> is a parameter.\<close>

record 'v Model =
  Viewport :: 'v
  Entries :: "Entry list"
  BorderColor :: AdaptiveColor
  Title :: string
  Model_TitleColor :: TitleColor
  Active :: bool
  Borderless :: bool

definition Model_Update ::
    "('v \<Rightarrow> 'm \<Rightarrow> 'v \<times> 'w option) \<Rightarrow> 'v Model \<Rightarrow> 'm \<Rightarrow> 'v Model \<times> 'w Cmd" where
  "Model_Update viewport_Update m msg =
     (if Active m
      then (let (v, cmd) = viewport_Update (Viewport m) msg
            in (m\<lparr>Viewport := v\<rparr>, Batch [widgetCmd cmd]))
      else (m, Batch []))"

section \<open>Collaborators and inputs for the examples\<close>

definition plainBinding :: "string \<Rightarrow> Binding" where
  "plainBinding k = \<lparr>binding_keys = [k], disabled = False\<rparr>"

definition exampleKeyMap :: KeyMap where
  "exampleKeyMap =
     \<lparr>openDirectoryKey = plainBinding ''right'',
      copyItemKey = plainBinding ''C'',
      zipItemKey = plainBinding ''Z'',
      unzipItemKey = plainBinding ''U'',
      createFileKey = plainBinding ''ctrl+f'',
      createDirectoryKey = plainBinding ''ctrl+d'',
      deleteItemKey = plainBinding ''x'',
      toggleHiddenKey = plainBinding ''.'',
      homeShortcutKey = plainBinding ''~'',
      copyToClipboardKey = plainBinding ''y'',
      escapeKey = plainBinding ''esc'',
      submitInputKey = plainBinding ''enter''\<rparr>"

text \<open>
  A list that moves its cursor on the arrow keys and answers \<open>esc\<close> with a command of its
  own, and a text input that appends a typed character while it is focused and does
  nothing while it is not.
\<close>

definition exampleListUpdate :: "list_Model \<Rightarrow> string Msg \<Rightarrow> list_Model \<times> string option" where
  "exampleListUpdate l msg =
     (case msg of
        KeyMsg k \<Rightarrow>
          (if k = ''down'' then (l\<lparr>cursor := min (cursor l + 1) (length (items l) - 1)\<rparr>, None)
           else if k = ''up'' then (l\<lparr>cursor := cursor l - 1\<rparr>, None)
           else if k = ''esc'' then (l, Some ''list: esc'')
           else (l, None))
      | _ \<Rightarrow> (l, None))"

definition exampleInputUpdate ::
    "textinput_Model \<Rightarrow> string Msg \<Rightarrow> textinput_Model \<times> string option" where
  "exampleInputUpdate m msg =
     (if \<not> focus m then (m, None)
      else (case msg of
              KeyMsg k \<Rightarrow>
                (if length k = 1 then (m\<lparr>text_value := text_value m @ k\<rparr>, Some ''input: key'')
                 else (m, Some ''input: key''))
            | _ \<Rightarrow> (m, None)))"

definition exampleEnv :: "string Env" where
  "exampleEnv =
     \<lparr>keyMap = exampleKeyMap,
      CurrentDirectory = ''.'',
      HomeDirectory = ''~'',
      statusMessageInfoStyle = (\<lambda>s. ''info: '' @ s),
      statusMessageErrorStyle = (\<lambda>s. ''error: '' @ s),
      unicodeLower = (\<lambda>s. s),
      list_SetItems = (\<lambda>l its. (l\<lparr>items := its\<rparr>, None)),
      list_Update = exampleListUpdate,
      input_Update = exampleInputUpdate\<rparr>"

definition exampleItem :: "string \<Rightarrow> list_Item" where
  "exampleItem name = ItemValue \<lparr>DisplayName = name, FileName = name, Metadata = []\<rparr>"

definition exampleList :: list_Model where
  "exampleList = \<lparr>items = [exampleItem ''a.txt'', exampleItem ''docs''], cursor = 0,
     statusMessage = []\<rparr>"

definition blankInput :: textinput_Model where
  "blankInput = \<lparr>focus = False, text_value = [], Placeholder = []\<rparr>"

definition idleBubble :: Bubble where
  "idleBubble = \<lparr>state = idleState, list = exampleList, input = blankInput, showHidden = False\<rparr>"

text \<open>A bubble with a prompt of mode \<open>s\<close> open and \<open>t\<close> typed into it.\<close>

definition promptBubble :: "State \<Rightarrow> string \<Rightarrow> Bubble" where
  "promptBubble s t =
     \<lparr>state = s, list = exampleList,
      input = \<lparr>focus = True, text_value = t, Placeholder = []\<rparr>, showHidden = False\<rparr>"

definition exampleLipgloss :: Lipgloss where
  "exampleLipgloss =
     \<lparr>Render = (\<lambda>st t. t @ replicate (nat (style_width st) - length t) (CHR '' '')),
      JoinHorizontal = (\<lambda>p xs. concat xs),
      JoinVertical = (\<lambda>p xs. concat (map (\<lambda>x. x @ [CHR 0x0A]) xs))\<rparr>"

text \<open>
  The same renderer on a terminal with colours: bold text is wrapped in the escape
  sequences for bold and reset.
\<close>

definition ansiLipgloss :: Lipgloss where
  "ansiLipgloss =
     exampleLipgloss\<lparr>Render :=
       (\<lambda>st t. if bold st
                then [CHR 0x1B] @ ''[1m'' @ Render exampleLipgloss st t @ [CHR 0x1B] @ ''[0m''
                else Render exampleLipgloss st t)\<rparr>"

text \<open>A renderer that differs from the first one only in the joins away from the top.\<close>

definition topLipgloss :: Lipgloss where
  "topLipgloss =
     exampleLipgloss\<lparr>
       JoinHorizontal := (\<lambda>p xs. if p = Top then concat xs else []),
       JoinVertical := (\<lambda>p xs. if p = Top then concat (map (\<lambda>x. x @ [CHR 0x0A]) xs) else [])\<rparr>"

definition exampleTitleColor :: TitleColor where
  "exampleTitleColor = \<lparr>Background = white_on_dark, Foreground = white_on_dark\<rparr>"

definition exampleHelp :: "nat Model" where
  "exampleHelp =
     \<lparr>Viewport = 0, Entries = [\<lparr>Key = ''esc'', Description = ''close''\<rparr>],
      BorderColor = white_on_dark, Title = ''Help'', Model_TitleColor = exampleTitleColor,
      Active = False, Borderless = False\<rparr>"

section \<open>The prompt invariant\<close>

text \<open>A focused text input goes with one of the three prompt modes.\<close>

definition promptInv :: "Bubble \<Rightarrow> bool" where
  "promptInv b \<longleftrightarrow> (Focused (input b) \<longrightarrow> state b \<noteq> idleState)"

section \<open>Facts about the model\<close>

lemmas model_defs =
  Bubble_Update_def onKey_def keyCase_def key_Matches_def forward_def refresh_def
  GetSelectedItem_def SelectedItem_def NewStatusMessage_def Focused_def Focus_def Blur_def
  Reset_def Value_def Let_def split_def

lemmas example_defs =
  exampleEnv_def exampleKeyMap_def plainBinding_def exampleListUpdate_def
  exampleInputUpdate_def exampleItem_def exampleList_def blankInput_def idleBubble_def
  promptBubble_def

subsection \<open>The last switch\<close>

lemma forward_idle:
  "state b = idleState \<Longrightarrow>
   forward env b msg cmds =
     (b\<lparr>list := fst (list_Update env (list b) msg)\<rparr>,
      Batch (cmds @ [widgetCmd (snd (list_Update env (list b) msg))]))"
  by (simp add: forward_def split_def Let_def)

lemma forward_prompt:
  "state b \<noteq> idleState \<Longrightarrow>
   forward env b msg cmds =
     (b\<lparr>input := fst (input_Update env (input b) msg)\<rparr>,
      Batch (cmds @ [widgetCmd (snd (input_Update env (input b) msg))]))"
  by (cases "state b") (simp_all add: forward_def split_def Let_def)

lemma snd_forward: "\<exists>w. snd (forward env b msg cmds) = Batch (cmds @ [widgetCmd w])"
  by (cases "state b") (auto simp add: forward_def split_def Let_def)

lemma state_forward: "state (fst (forward env b msg cmds)) = state b"
  by (cases "state b") (simp_all add: forward_def split_def Let_def)

lemma widgetCmd_leaf:
  "leaves (widgetCmd w) = [widgetCmd w]" "\<not> isMutation (widgetCmd w)" "\<not> isListing (widgetCmd w)"
  by (cases w; simp)+

lemma mutation_leaf: "isMutation m \<Longrightarrow> leaves m = [m] \<and> \<not> isListing m"
  by (cases m) simp_all

lemma pair_then_status:
  assumes "isMutation m"
  shows "mutatesThenRefreshes m (getDirectoryListingCmd d h)
           (Batch ([Sequentially [m, getDirectoryListingCmd d h], statusMessageCmd s] @ [widgetCmd w]))"
  using assms mutation_leaf [OF assms]
  by (cases w) (auto simp add: mutatesThenRefreshes_def)

lemma status_then_pair:
  assumes "isMutation m"
  shows "mutatesThenRefreshes m (getDirectoryListingCmd d h)
           (Batch ([statusMessageCmd s, Sequentially [m, getDirectoryListingCmd d h]] @ [widgetCmd w]))"
  using assms mutation_leaf [OF assms]
  by (cases w) (auto simp add: mutatesThenRefreshes_def)

lemma copy_cmd:
  assumes "keyCase (keyMap env) k = CopyItem" "\<not> Focused (input b)"
  shows "\<exists>w. snd (Bubble_Update env b (KeyMsg k)) =
     Batch ([Sequentially [copyItemCmd (FileName (GetSelectedItem b)), refresh env b],
             statusMessageCmd (statusMessageInfoStyle env ''Successfully copied file'')] @ [widgetCmd w])"
  using assms
  by (cases "state b")
     (auto simp add: Bubble_Update_def onKey_def NewStatusMessage_def forward_def Let_def split_def)

lemma zip_cmd:
  assumes "keyCase (keyMap env) k = ZipItem" "\<not> Focused (input b)"
  shows "\<exists>w. snd (Bubble_Update env b (KeyMsg k)) =
     Batch ([Sequentially [zipItemCmd (FileName (GetSelectedItem b)), refresh env b],
             statusMessageCmd (statusMessageInfoStyle env ''Successfully zipped item'')] @ [widgetCmd w])"
  using assms
  by (cases "state b")
     (auto simp add: Bubble_Update_def onKey_def NewStatusMessage_def forward_def Let_def split_def)

lemma unzip_cmd:
  assumes "keyCase (keyMap env) k = UnzipItem" "\<not> Focused (input b)"
  shows "\<exists>w. snd (Bubble_Update env b (KeyMsg k)) =
     Batch ([Sequentially [unzipItemCmd (FileName (GetSelectedItem b)), refresh env b],
             statusMessageCmd (statusMessageInfoStyle env ''Successfully unzipped item'')] @ [widgetCmd w])"
  using assms
  by (cases "state b")
     (auto simp add: Bubble_Update_def onKey_def NewStatusMessage_def forward_def Let_def split_def)

lemma createFile_cmd:
  assumes "keyCase (keyMap env) k = SubmitInput" "state b = createFileState"
  shows "\<exists>w. snd (Bubble_Update env b (KeyMsg k)) =
     Batch ([Sequentially [createFileCmd (Value (input b)), refresh env b],
             statusMessageCmd (statusMessageInfoStyle env ''Successfully created file'')] @ [widgetCmd w])"
  using assms
  by (cases "state b")
     (auto simp add: Bubble_Update_def onKey_def NewStatusMessage_def forward_def Let_def split_def)

lemma createDirectory_cmd:
  assumes "keyCase (keyMap env) k = SubmitInput" "state b = createDirectoryState"
  shows "\<exists>w. snd (Bubble_Update env b (KeyMsg k)) =
     Batch ([statusMessageCmd (statusMessageInfoStyle env ''Successfully created directory''),
             Sequentially [createDirectoryCmd (Value (input b)), refresh env b]] @ [widgetCmd w])"
  using assms
  by (cases "state b")
     (auto simp add: Bubble_Update_def onKey_def NewStatusMessage_def forward_def Let_def split_def)

lemma delete_cmd:
  assumes "keyCase (keyMap env) k = SubmitInput" "state b = deleteItemState"
    "strings_ToLower (unicodeLower env) (Value (input b)) = ''y''"
  shows "\<exists>w. snd (Bubble_Update env b (KeyMsg k)) =
     Batch ([statusMessageCmd (statusMessageInfoStyle env ''Successfully deleted item''),
             Sequentially [deleteItemCmd (FileName (GetSelectedItem b)), refresh env b]] @ [widgetCmd w])"
  using assms
  by (cases "state b")
     (auto simp add: Bubble_Update_def onKey_def NewStatusMessage_def forward_def Let_def split_def)

lemma no_delete_cmd:
  assumes "keyCase (keyMap env) k = SubmitInput" "state b = deleteItemState"
    "strings_ToLower (unicodeLower env) (Value (input b)) \<noteq> ''y''"
  shows "Bubble_Update env b (KeyMsg k) =
     (b\<lparr>input := fst (input_Update env (Reset (Blur (input b))) (KeyMsg k))\<rparr>,
      Batch [widgetCmd (snd (input_Update env (Reset (Blur (input b))) (KeyMsg k)))])"
  using assms
  by (simp add: Bubble_Update_def onKey_def forward_prompt)

subsection \<open>The prompt invariant is kept\<close>

lemma promptInv_forward:
  "promptInv (fst (forward env b msg cmds)) \<longleftrightarrow> (state b = idleState \<longrightarrow> \<not> Focused (input b))"
  by (cases "state b") (simp_all add: forward_def split_def Let_def promptInv_def)

lemma onKey_promptInv: "promptInv b \<Longrightarrow> promptInv (fst (onKey env b msg c))"
  by (cases c; cases "state b")
     (simp_all add: onKey_def NewStatusMessage_def Let_def promptInv_forward Focused_def
        Focus_def Blur_def Reset_def, auto simp add: promptInv_def Focused_def)

lemma Update_promptInv: "promptInv b \<Longrightarrow> promptInv (fst (Bubble_Update env b msg))"
proof (cases msg)
  case (getDirectoryListingMsg listing)
  assume "promptInv b"
  then show ?thesis using getDirectoryListingMsg
    by (cases listing)
       (simp_all add: Bubble_Update_def promptInv_forward split_def Let_def, auto simp add: promptInv_def)
next
  case (KeyMsg k)
  assume "promptInv b"
  then show ?thesis using KeyMsg by (simp add: Bubble_Update_def onKey_promptInv)
next
  case (WidgetMsg w)
  assume "promptInv b"
  then show ?thesis using WidgetMsg
    by (simp add: Bubble_Update_def promptInv_forward) (auto simp add: promptInv_def)
qed (simp_all add: Bubble_Update_def NewStatusMessage_def promptInv_def)

lemma run_promptInv: "promptInv b \<Longrightarrow> promptInv (run env b msgs)"
  by (induction msgs arbitrary: b) (simp_all add: Update_promptInv)

lemma prompt_key_to_input:
  assumes "Focused (input b)" "state b \<noteq> idleState"
    "keyCase (keyMap env) k \<noteq> Escape" "keyCase (keyMap env) k \<noteq> SubmitInput"
  shows "Bubble_Update env b (KeyMsg k) =
     (b\<lparr>input := fst (input_Update env (input b) (KeyMsg k))\<rparr>,
      Batch [widgetCmd (snd (input_Update env (input b) (KeyMsg k)))])"
  using assms
  by (cases "keyCase (keyMap env) k") (simp_all add: Bubble_Update_def onKey_def forward_prompt)

lemma escape_cmd:
  assumes "keyCase (keyMap env) k = Escape" "Focused (input b)"
  shows "Bubble_Update env b (KeyMsg k) =
     (b\<lparr>input := Blur (Reset (input b)), state := idleState,
        list := fst (list_Update env (list b) (KeyMsg k))\<rparr>,
      Batch [widgetCmd (snd (list_Update env (list b) (KeyMsg k)))])"
  using assms by (simp add: Bubble_Update_def onKey_def forward_idle)

lemma focused_key_state:
  assumes "Focused (input b)"
  shows "state (fst (Bubble_Update env b (KeyMsg k))) = state b \<or>
         state (fst (Bubble_Update env b (KeyMsg k))) = idleState"
  using assms
  by (cases "keyCase (keyMap env) k"; cases "state b")
     (simp_all add: Bubble_Update_def onKey_def state_forward NewStatusMessage_def Let_def)

lemma submit_keeps_state:
  assumes "keyCase (keyMap env) k = SubmitInput"
  shows "state (fst (Bubble_Update env b (KeyMsg k))) = state b"
  using assms
  by (cases "state b")
     (simp_all add: Bubble_Update_def onKey_def state_forward NewStatusMessage_def Let_def)

lemma escape_while_focused:
  assumes "keyCase (keyMap env) k = Escape" and "Focused (input b)"
    and "b' = fst (Bubble_Update env b (KeyMsg k))"
    and "c = snd (Bubble_Update env b (KeyMsg k))"
  shows "state b' = idleState \<and> Value (input b') = [] \<and> \<not> Focused (input b') \<and>
    Placeholder (input b') = Placeholder (input b) \<and>
    filter isMutation (leaves c) = [] \<and>
    c = Batch [widgetCmd (snd (list_Update env (list b) (KeyMsg k)))]"
  using escape_cmd [OF assms(1,2)] assms(3,4)
  by (simp add: widgetCmd_leaf Value_def Focused_def Blur_def Reset_def)

subsection \<open>Lower case of ASCII strings\<close>

lemma asciiLower_y: "asciiLower c = CHR ''y'' \<longleftrightarrow> c = CHR ''y'' \<or> c = CHR ''Y''"
proof -
  define n :: nat where "n = of_char c"
  have lt: "n < 256" by (simp add: n_def)
  have y: "c = CHR ''y'' \<longleftrightarrow> n = 121"
    using of_char_eq_iff [of c "CHR ''y''", where ?'a = nat] by (simp add: n_def)
  have Y: "c = CHR ''Y'' \<longleftrightarrow> n = 89"
    using of_char_eq_iff [of c "CHR ''Y''", where ?'a = nat] by (simp add: n_def)
  have up: "char_of (n + 32) = CHR ''y'' \<longleftrightarrow> (n + 32) mod 256 = 121"
    using of_char_eq_iff [of "char_of (n + 32)" "CHR ''y''", where ?'a = nat]
    by (simp add: of_char_of)
  have "asciiLower c = CHR ''y'' \<longleftrightarrow> (if 65 \<le> n \<and> n \<le> 90 then (n + 32) mod 256 = 121 else n = 121)"
    using up y by (simp add: asciiLower_def n_def [symmetric])
  also have "\<dots> \<longleftrightarrow> n = 121 \<or> n = 89"
    using lt by (auto split: if_splits)
  finally show ?thesis by (simp add: y Y)
qed

lemma ToLower_ascii_y:
  assumes "list_all isASCII s"
  shows "strings_ToLower ul s = ''y'' \<longleftrightarrow> s = ''y'' \<or> s = ''Y''"
proof -
  have "map asciiLower s = [CHR ''y''] \<longleftrightarrow> (\<exists>c. s = [c] \<and> asciiLower c = CHR ''y'')"
    by (cases s) auto
  then show ?thesis using assms by (auto simp add: strings_ToLower_def asciiLower_y)
qed


subsection \<open>The example collaborators\<close>

lemma example_keys:
  "keyCase (keyMap exampleEnv) ''C'' = CopyItem"
  "keyCase (keyMap exampleEnv) ''Z'' = ZipItem"
  "keyCase (keyMap exampleEnv) ''U'' = UnzipItem"
  "keyCase (keyMap exampleEnv) ''ctrl+f'' = CreateFile"
  "keyCase (keyMap exampleEnv) ''esc'' = Escape"
  "keyCase (keyMap exampleEnv) ''enter'' = SubmitInput"
  "keyCase (keyMap exampleEnv) ''down'' = NoCase"
  by (simp_all add: keyCase_def key_Matches_def exampleEnv_def exampleKeyMap_def plainBinding_def)

lemma example_env:
  "CurrentDirectory exampleEnv = ''.''"
  "statusMessageInfoStyle exampleEnv s = ''info: '' @ s"
  "statusMessageErrorStyle exampleEnv s = ''error: '' @ s"
  "unicodeLower exampleEnv s = s"
  "list_Update exampleEnv = exampleListUpdate"
  "input_Update exampleEnv = exampleInputUpdate"
  by (simp_all add: exampleEnv_def)

lemma example_bubbles:
  "state idleBubble = idleState"
  "\<not> Focused (input idleBubble)"
  "showHidden idleBubble = False"
  "list idleBubble = exampleList"
  "GetSelectedItem idleBubble = \<lparr>DisplayName = ''a.txt'', FileName = ''a.txt'', Metadata = []\<rparr>"
  "state (promptBubble s t) = s"
  "Focused (input (promptBubble s t))"
  "Value (input (promptBubble s t)) = t"
  "showHidden (promptBubble s t) = False"
  "list (promptBubble s t) = exampleList"
  "GetSelectedItem (promptBubble s t) =
     \<lparr>DisplayName = ''a.txt'', FileName = ''a.txt'', Metadata = []\<rparr>"
  by (simp_all add: idleBubble_def promptBubble_def blankInput_def exampleList_def
        exampleItem_def GetSelectedItem_def SelectedItem_def Focused_def Value_def)

lemma example_lower: "strings_ToLower ul ''Y'' = ''y''" "strings_ToLower ul ''n'' \<noteq> ''y''"
  by (simp_all add: ToLower_ascii_y isASCII_def)

lemma example_open_prompt:
  "run exampleEnv idleBubble [KeyMsg ''ctrl+f''] =
     idleBubble\<lparr>input := \<lparr>focus = True, text_value = [], Placeholder = ''Enter name of new file''\<rparr>,
       state := createFileState\<rparr>"
  by (simp add: Bubble_Update_def onKey_def example_keys example_bubbles Focus_def Focused_def
        idleBubble_def blankInput_def)

subsection \<open>The rows of the help screen\<close>

lemma helpRows_concat:
  "helpRows lg entries helpScreen = helpScreen @ concat (map (helpRow lg) entries)"
  by (induction entries arbitrary: helpScreen) simp_all

lemma generateHelpScreen_rows:
  "\<exists>titleText.
     generateHelpScreen lg title titleColor entries width height =
       Render lg (NewStyle\<lparr>style_width := width, style_height := height\<rparr>)
         (JoinVertical lg Top [titleText, concat (map (helpRow lg) entries)])"
  unfolding generateHelpScreen_def helpRows_concat Let_def by auto

lemma helpRow_alike:
  assumes "rendersAlike lg1 lg2 titleColor width height"
  shows "helpRow lg1 content = helpRow lg2 content"
  using assms by (simp add: rendersAlike_def usedStyles_def helpRow_def Let_def)

section \<open>The claims\<close>

text \<open>
  Claim C1: in each of the three prompt modes the submit key runs the pending action,
  clears the input and takes the mode back to idle. The code blurs and clears the input
  and leaves the mode as it is: with the example collaborators, submitting \<open>a.txt\<close> in
  the new-file prompt ends in \<open>createFileState\<close>, and a second submit asks to create a
  file with the empty name.
\<close>

theorem submit_leaves_mode:
  "state (fst (Bubble_Update exampleEnv (promptBubble createFileState ''a.txt'') (KeyMsg ''enter'')))
     = createFileState \<and>
   snd (Bubble_Update exampleEnv
          (fst (Bubble_Update exampleEnv (promptBubble createFileState ''a.txt'') (KeyMsg ''enter'')))
          (KeyMsg ''enter''))
     = Batch [Sequentially [createFileCmd [], getDirectoryListingCmd ''.'' False],
              statusMessageCmd ''info: Successfully created file'', NilCmd]"
  by (simp add: model_defs example_defs)

text \<open>
  Claim C2: for copy, zip, unzip, create file, create directory and a confirmed delete,
  the command that \<open>Update\<close> returns batches the pair "mutation, then refresh of the
  current directory" in that order, and holds no other mutation and no other directory
  listing.
\<close>

theorem mutation_then_refresh:
  "(keyCase (keyMap env) k = CopyItem \<and> \<not> Focused (input b) \<longrightarrow>
      mutatesThenRefreshes (copyItemCmd (FileName (GetSelectedItem b)))
        (getDirectoryListingCmd (CurrentDirectory env) (showHidden b))
        (snd (Bubble_Update env b (KeyMsg k)))) \<and>
   (keyCase (keyMap env) k = ZipItem \<and> \<not> Focused (input b) \<longrightarrow>
      mutatesThenRefreshes (zipItemCmd (FileName (GetSelectedItem b)))
        (getDirectoryListingCmd (CurrentDirectory env) (showHidden b))
        (snd (Bubble_Update env b (KeyMsg k)))) \<and>
   (keyCase (keyMap env) k = UnzipItem \<and> \<not> Focused (input b) \<longrightarrow>
      mutatesThenRefreshes (unzipItemCmd (FileName (GetSelectedItem b)))
        (getDirectoryListingCmd (CurrentDirectory env) (showHidden b))
        (snd (Bubble_Update env b (KeyMsg k)))) \<and>
   (keyCase (keyMap env) k = SubmitInput \<and> state b = createFileState \<longrightarrow>
      mutatesThenRefreshes (createFileCmd (Value (input b)))
        (getDirectoryListingCmd (CurrentDirectory env) (showHidden b))
        (snd (Bubble_Update env b (KeyMsg k)))) \<and>
   (keyCase (keyMap env) k = SubmitInput \<and> state b = createDirectoryState \<longrightarrow>
      mutatesThenRefreshes (createDirectoryCmd (Value (input b)))
        (getDirectoryListingCmd (CurrentDirectory env) (showHidden b))
        (snd (Bubble_Update env b (KeyMsg k)))) \<and>
   (keyCase (keyMap env) k = SubmitInput \<and> state b = deleteItemState \<and>
    strings_ToLower (unicodeLower env) (Value (input b)) = ''y'' \<longrightarrow>
      mutatesThenRefreshes (deleteItemCmd (FileName (GetSelectedItem b)))
        (getDirectoryListingCmd (CurrentDirectory env) (showHidden b))
        (snd (Bubble_Update env b (KeyMsg k))))"
proof (intro conjI impI)
  assume "keyCase (keyMap env) k = CopyItem \<and> \<not> Focused (input b)"
  then obtain w where "snd (Bubble_Update env b (KeyMsg k)) =
     Batch ([Sequentially [copyItemCmd (FileName (GetSelectedItem b)), refresh env b],
             statusMessageCmd (statusMessageInfoStyle env ''Successfully copied file'')] @ [widgetCmd w])"
    using copy_cmd by blast
  then show "mutatesThenRefreshes (copyItemCmd (FileName (GetSelectedItem b)))
        (getDirectoryListingCmd (CurrentDirectory env) (showHidden b))
        (snd (Bubble_Update env b (KeyMsg k)))"
    by (simp only: refresh_def pair_then_status isMutation.simps)
next
  assume "keyCase (keyMap env) k = ZipItem \<and> \<not> Focused (input b)"
  then obtain w where "snd (Bubble_Update env b (KeyMsg k)) =
     Batch ([Sequentially [zipItemCmd (FileName (GetSelectedItem b)), refresh env b],
             statusMessageCmd (statusMessageInfoStyle env ''Successfully zipped item'')] @ [widgetCmd w])"
    using zip_cmd by blast
  then show "mutatesThenRefreshes (zipItemCmd (FileName (GetSelectedItem b)))
        (getDirectoryListingCmd (CurrentDirectory env) (showHidden b))
        (snd (Bubble_Update env b (KeyMsg k)))"
    by (simp only: refresh_def pair_then_status isMutation.simps)
next
  assume "keyCase (keyMap env) k = UnzipItem \<and> \<not> Focused (input b)"
  then obtain w where "snd (Bubble_Update env b (KeyMsg k)) =
     Batch ([Sequentially [unzipItemCmd (FileName (GetSelectedItem b)), refresh env b],
             statusMessageCmd (statusMessageInfoStyle env ''Successfully unzipped item'')] @ [widgetCmd w])"
    using unzip_cmd by blast
  then show "mutatesThenRefreshes (unzipItemCmd (FileName (GetSelectedItem b)))
        (getDirectoryListingCmd (CurrentDirectory env) (showHidden b))
        (snd (Bubble_Update env b (KeyMsg k)))"
    by (simp only: refresh_def pair_then_status isMutation.simps)
next
  assume "keyCase (keyMap env) k = SubmitInput \<and> state b = createFileState"
  then obtain w where "snd (Bubble_Update env b (KeyMsg k)) =
     Batch ([Sequentially [createFileCmd (Value (input b)), refresh env b],
             statusMessageCmd (statusMessageInfoStyle env ''Successfully created file'')] @ [widgetCmd w])"
    using createFile_cmd by blast
  then show "mutatesThenRefreshes (createFileCmd (Value (input b)))
        (getDirectoryListingCmd (CurrentDirectory env) (showHidden b))
        (snd (Bubble_Update env b (KeyMsg k)))"
    by (simp only: refresh_def pair_then_status isMutation.simps)
next
  assume "keyCase (keyMap env) k = SubmitInput \<and> state b = createDirectoryState"
  then obtain w where "snd (Bubble_Update env b (KeyMsg k)) =
     Batch ([statusMessageCmd (statusMessageInfoStyle env ''Successfully created directory''),
             Sequentially [createDirectoryCmd (Value (input b)), refresh env b]] @ [widgetCmd w])"
    using createDirectory_cmd by blast
  then show "mutatesThenRefreshes (createDirectoryCmd (Value (input b)))
        (getDirectoryListingCmd (CurrentDirectory env) (showHidden b))
        (snd (Bubble_Update env b (KeyMsg k)))"
    by (simp only: refresh_def status_then_pair isMutation.simps)
next
  assume "keyCase (keyMap env) k = SubmitInput \<and> state b = deleteItemState \<and>
    strings_ToLower (unicodeLower env) (Value (input b)) = ''y''"
  then obtain w where "snd (Bubble_Update env b (KeyMsg k)) =
     Batch ([statusMessageCmd (statusMessageInfoStyle env ''Successfully deleted item''),
             Sequentially [deleteItemCmd (FileName (GetSelectedItem b)), refresh env b]] @ [widgetCmd w])"
    using delete_cmd by blast
  then show "mutatesThenRefreshes (deleteItemCmd (FileName (GetSelectedItem b)))
        (getDirectoryListingCmd (CurrentDirectory env) (showHidden b))
        (snd (Bubble_Update env b (KeyMsg k)))"
    by (simp only: refresh_def status_then_pair isMutation.simps)
qed

theorem mutation_then_refresh_witness:
  "mutatesThenRefreshes (copyItemCmd ''a.txt'') (getDirectoryListingCmd ''.'' False)
     (snd (Bubble_Update exampleEnv idleBubble (KeyMsg ''C''))) \<and>
   mutatesThenRefreshes (zipItemCmd ''a.txt'') (getDirectoryListingCmd ''.'' False)
     (snd (Bubble_Update exampleEnv idleBubble (KeyMsg ''Z''))) \<and>
   mutatesThenRefreshes (unzipItemCmd ''a.txt'') (getDirectoryListingCmd ''.'' False)
     (snd (Bubble_Update exampleEnv idleBubble (KeyMsg ''U''))) \<and>
   mutatesThenRefreshes (createFileCmd ''new.txt'') (getDirectoryListingCmd ''.'' False)
     (snd (Bubble_Update exampleEnv (promptBubble createFileState ''new.txt'') (KeyMsg ''enter''))) \<and>
   mutatesThenRefreshes (createDirectoryCmd ''docs2'') (getDirectoryListingCmd ''.'' False)
     (snd (Bubble_Update exampleEnv (promptBubble createDirectoryState ''docs2'')
            (KeyMsg ''enter''))) \<and>
   mutatesThenRefreshes (deleteItemCmd ''a.txt'') (getDirectoryListingCmd ''.'' False)
     (snd (Bubble_Update exampleEnv (promptBubble deleteItemState ''Y'') (KeyMsg ''enter'')))"
  using mutation_then_refresh [of exampleEnv "''C''" idleBubble]
    mutation_then_refresh [of exampleEnv "''Z''" idleBubble]
    mutation_then_refresh [of exampleEnv "''U''" idleBubble]
    mutation_then_refresh [of exampleEnv "''enter''" "promptBubble createFileState ''new.txt''"]
    mutation_then_refresh [of exampleEnv "''enter''" "promptBubble createDirectoryState ''docs2''"]
    mutation_then_refresh [of exampleEnv "''enter''" "promptBubble deleteItemState ''Y''"]
  by (simp add: example_keys example_env example_bubbles example_lower)

text \<open>
  Claim C3: for every mutating action the status message comes after the pair of
  mutation and refresh in the command that is returned. After copy, zip, unzip and
  create file it does; after create directory and a confirmed delete the code appends
  the status message first and the pair second. With the example collaborators,
  submitting \<open>docs2\<close> in the new-directory prompt returns the status message ahead of the
  pair.
\<close>

theorem createDirectory_status_first:
  "snd (Bubble_Update exampleEnv (promptBubble createDirectoryState ''docs2'') (KeyMsg ''enter''))
     = Batch [statusMessageCmd ''info: Successfully created directory'',
              Sequentially [createDirectoryCmd ''docs2'', getDirectoryListingCmd ''.'' False],
              NilCmd]"
  by (simp add: model_defs example_defs)

text \<open>
  Claim C4: on the submit key in the delete prompt, a delete command is in the returned
  command exactly when the lower-cased text is \<open>y\<close> (for a text of ASCII bytes: when it is
  \<open>y\<close> or \<open>Y\<close>). For any other text the command holds no mutation at all, only what the
  text input hands back for the key, and the input that receives the key is blurred and
  empty; when the text input leaves a blurred input alone, that is the input of the
  bubble afterwards.
\<close>

theorem delete_only_on_y:
  assumes "keyCase (keyMap env) k = SubmitInput" and "state b = deleteItemState"
    and "b' = fst (Bubble_Update env b (KeyMsg k))"
    and "c = snd (Bubble_Update env b (KeyMsg k))"
    and "v = Value (input b)"
  shows "(list_ex isDelete (leaves c) \<longleftrightarrow> strings_ToLower (unicodeLower env) v = ''y'') \<and>
    (list_all isASCII v \<longrightarrow> (list_ex isDelete (leaves c) \<longleftrightarrow> v = ''y'' \<or> v = ''Y'')) \<and>
    (strings_ToLower (unicodeLower env) v = ''y'' \<longrightarrow>
       filter isMutation (leaves c) = [deleteItemCmd (FileName (GetSelectedItem b))]) \<and>
    (strings_ToLower (unicodeLower env) v \<noteq> ''y'' \<longrightarrow>
       filter isMutation (leaves c) = [] \<and>
       c = Batch [widgetCmd (snd (input_Update env (Reset (Blur (input b))) (KeyMsg k)))] \<and>
       list b' = list b \<and>
       input b' = fst (input_Update env (Reset (Blur (input b))) (KeyMsg k)) \<and>
       \<not> Focused (Reset (Blur (input b))) \<and> Value (Reset (Blur (input b))) = []) \<and>
    (strings_ToLower (unicodeLower env) v \<noteq> ''y'' \<and>
     input_Update env (Reset (Blur (input b))) (KeyMsg k) = (Reset (Blur (input b)), None) \<longrightarrow>
       \<not> Focused (input b') \<and> Value (input b') = [] \<and> c = Batch [NilCmd])"
proof -
  have yes: "filter isMutation (leaves c) = [deleteItemCmd (FileName (GetSelectedItem b))]"
    if is_y: "strings_ToLower (unicodeLower env) v = ''y''"
  proof -
    obtain w where "c =
       Batch ([statusMessageCmd (statusMessageInfoStyle env ''Successfully deleted item''),
               Sequentially [deleteItemCmd (FileName (GetSelectedItem b)), refresh env b]]
              @ [widgetCmd w])"
      using delete_cmd [of env k b] assms is_y by auto
    then show ?thesis by (simp add: refresh_def widgetCmd_leaf)
  qed
  have no: "Bubble_Update env b (KeyMsg k) =
       (b\<lparr>input := fst (input_Update env (Reset (Blur (input b))) (KeyMsg k))\<rparr>,
        Batch [widgetCmd (snd (input_Update env (Reset (Blur (input b))) (KeyMsg k)))])"
    if "strings_ToLower (unicodeLower env) v \<noteq> ''y''"
    using no_delete_cmd [of env k b] assms that by simp
  have no_leaves: "filter isMutation (leaves c) = []"
    if "strings_ToLower (unicodeLower env) v \<noteq> ''y''"
    using no [OF that] assms by (simp add: widgetCmd_leaf)
  have ex: "list_ex isDelete xs \<longleftrightarrow> list_ex isDelete (filter isMutation xs)" for xs :: "'a Cmd list"
  proof (induction xs)
    case Nil
    show ?case by simp
  next
    case (Cons x xs)
    then show ?case by (cases x) simp_all
  qed
  have iff: "list_ex isDelete (leaves c) \<longleftrightarrow> strings_ToLower (unicodeLower env) v = ''y''"
    using yes no_leaves ex [of "leaves c"] by (cases "strings_ToLower (unicodeLower env) v = ''y''") simp_all
  show ?thesis
    using iff yes no no_leaves assms ToLower_ascii_y [of v "unicodeLower env"]
    by (auto simp add: Focused_def Blur_def Reset_def Value_def)
qed

theorem delete_only_on_y_witness:
  "list_ex isDelete (leaves (snd (Bubble_Update exampleEnv (promptBubble deleteItemState ''Y'')
      (KeyMsg ''enter'')))) \<and>
   filter isMutation (leaves (snd (Bubble_Update exampleEnv (promptBubble deleteItemState ''Y'')
      (KeyMsg ''enter'')))) = [deleteItemCmd ''a.txt''] \<and>
   \<not> list_ex isDelete (leaves (snd (Bubble_Update exampleEnv (promptBubble deleteItemState ''n'')
      (KeyMsg ''enter'')))) \<and>
   snd (Bubble_Update exampleEnv (promptBubble deleteItemState ''n'') (KeyMsg ''enter''))
     = Batch [NilCmd] \<and>
   \<not> Focused (input (fst (Bubble_Update exampleEnv (promptBubble deleteItemState ''n'')
      (KeyMsg ''enter'')))) \<and>
   Value (input (fst (Bubble_Update exampleEnv (promptBubble deleteItemState ''n'')
      (KeyMsg ''enter'')))) = []"
  using delete_only_on_y [of exampleEnv "''enter''" "promptBubble deleteItemState ''Y''",
      OF _ _ refl refl refl]
    delete_only_on_y [of exampleEnv "''enter''" "promptBubble deleteItemState ''n''",
      OF _ _ refl refl refl]
  by (simp add: example_keys example_env example_bubbles example_lower exampleInputUpdate_def
        Reset_def Blur_def)

text \<open>
  Claim C5, as amended: in every state reached from an idle bubble whose input is
  blurred, a focused input goes with one of the three prompt modes, and a key pressed
  while it is focused opens no other prompt (the mode stays, or becomes idle). While the
  input is focused, every key other than the escape key and the submit key goes to the
  text input and not to the list: the bubble changes in its input only, so the mode and
  the whole list stay, and the command is what the text input hands back. Nothing is
  said here of where the submit key goes.
\<close>

theorem prompt_keys_go_to_input:
  assumes "state b0 = idleState" and "\<not> Focused (input b0)"
    and "b = run env b0 msgs" and "Focused (input b)"
    and "b' = fst (Bubble_Update env b (KeyMsg k))"
  shows "state b \<noteq> idleState \<and>
    (state b' = state b \<or> state b' = idleState) \<and>
    (keyCase (keyMap env) k \<noteq> Escape \<and> keyCase (keyMap env) k \<noteq> SubmitInput \<longrightarrow>
       Bubble_Update env b (KeyMsg k) =
         (b\<lparr>input := fst (input_Update env (input b) (KeyMsg k))\<rparr>,
          Batch [widgetCmd (snd (input_Update env (input b) (KeyMsg k)))]) \<and>
       state b' = state b \<and>
       list b' = list b \<and>
       input b' = fst (input_Update env (input b) (KeyMsg k)))"
proof -
  have "promptInv b0"
    using assms(1,2) by (simp add: promptInv_def)
  then have "promptInv b"
    using assms(3) by (simp add: run_promptInv)
  then have mode: "state b \<noteq> idleState"
    using assms(4) by (simp add: promptInv_def)
  have stay: "state b' = state b \<or> state b' = idleState"
    using focused_key_state [OF assms(4), of env k] assms(5) by simp
  have other: "Bubble_Update env b (KeyMsg k) =
         (b\<lparr>input := fst (input_Update env (input b) (KeyMsg k))\<rparr>,
          Batch [widgetCmd (snd (input_Update env (input b) (KeyMsg k)))])"
    if "keyCase (keyMap env) k \<noteq> Escape" and "keyCase (keyMap env) k \<noteq> SubmitInput"
    using prompt_key_to_input [OF assms(4) mode that] .
  show ?thesis
    using mode stay other assms(5) by auto
qed

theorem prompt_keys_go_to_input_witness:
  "Focused (input (run exampleEnv idleBubble [KeyMsg ''ctrl+f''])) \<and>
   state (run exampleEnv idleBubble [KeyMsg ''ctrl+f'']) = createFileState \<and>
   Bubble_Update exampleEnv (run exampleEnv idleBubble [KeyMsg ''ctrl+f'']) (KeyMsg ''down'') =
     (run exampleEnv idleBubble [KeyMsg ''ctrl+f''], Batch [WidgetCmd ''input: key'']) \<and>
   list (fst (Bubble_Update exampleEnv (run exampleEnv idleBubble [KeyMsg ''ctrl+f''])
      (KeyMsg ''down''))) = exampleList"
proof -
  let ?b = "run exampleEnv idleBubble [KeyMsg ''ctrl+f'']"
  have b: "?b = idleBubble\<lparr>input := \<lparr>focus = True, text_value = [],
       Placeholder = ''Enter name of new file''\<rparr>, state := createFileState\<rparr>"
    by (rule example_open_prompt)
  have idle: "state idleBubble = idleState" and blurred: "\<not> Focused (input idleBubble)"
    by (simp_all add: example_bubbles)
  have focused: "Focused (input ?b)"
    by (simp only: b) (simp add: Focused_def)
  note down = prompt_keys_go_to_input [OF idle blurred refl focused refl, where k = "''down''"]
  have input_down: "input_Update exampleEnv (input ?b) (KeyMsg ''down'') = (input ?b, Some ''input: key'')"
    by (simp only: b) (simp add: example_env exampleInputUpdate_def)
  have "Bubble_Update exampleEnv ?b (KeyMsg ''down'') = (?b, Batch [WidgetCmd ''input: key''])"
    using down by (simp only: input_down example_keys) simp
  moreover have "state ?b = createFileState"
    by (simp only: b) simp
  moreover have "list ?b = exampleList"
    by (simp only: b) (simp add: example_bubbles)
  ultimately show ?thesis
    using focused by simp
qed

text \<open>
  The claim as it is written fails at the escape key: pressed while the new-file prompt
  is open, it is handled by the list (whose command comes back) and not by the text
  input.
\<close>

theorem escape_reaches_list:
  "Focused (input (run exampleEnv idleBubble [KeyMsg ''ctrl+f''])) \<and>
   snd (Bubble_Update exampleEnv (run exampleEnv idleBubble [KeyMsg ''ctrl+f'']) (KeyMsg ''esc''))
     = Batch [WidgetCmd ''list: esc'']"
  by (simp add: model_defs example_defs)

text \<open>
  Claim C6: in every mode that is not idle, whatever was typed, the escape key empties
  the text, blurs the input and sets the mode to idle. The escape branch does all of
  this while the input is focused. After a submit the input is blurred and the mode is
  still the prompt mode, and there the escape key changes nothing: having opened the
  new-file prompt, typed \<open>a\<close> and submitted, the mode is \<open>createFileState\<close> before and
  after the escape key.
\<close>

theorem escape_after_submit:
  "state (run exampleEnv idleBubble [KeyMsg ''ctrl+f'', KeyMsg ''a'', KeyMsg ''enter''])
     = createFileState \<and>
   keyCase (keyMap exampleEnv) ''esc'' = Escape \<and>
   state (fst (Bubble_Update exampleEnv
            (run exampleEnv idleBubble [KeyMsg ''ctrl+f'', KeyMsg ''a'', KeyMsg ''enter''])
            (KeyMsg ''esc'')))
     = createFileState"
  by (simp add: model_defs example_defs)

text \<open>
  Claim C7: on an error message \<open>Update\<close> returns the one status-message command for the
  styled text of the error and leaves the items and the cursor of the list as they
  were. On a \<open>nil\<close> directory listing \<open>SetItems\<close> is not called: the list is what its own
  \<open>Update\<close> makes of the message in the idle mode and is untouched in the other modes, so
  the items stay whenever the list widget keeps them on that message.
\<close>

theorem error_keeps_listing:
  "snd (Bubble_Update env b (errorMsg e)) = statusMessageCmd (statusMessageErrorStyle env e) \<and>
   items (list (fst (Bubble_Update env b (errorMsg e)))) = items (list b) \<and>
   cursor (list (fst (Bubble_Update env b (errorMsg e)))) = cursor (list b) \<and>
   list (fst (Bubble_Update env b (getDirectoryListingMsg None))) =
     (if state b = idleState then fst (list_Update env (list b) (getDirectoryListingMsg None))
      else list b) \<and>
   (items (fst (list_Update env (list b) (getDirectoryListingMsg None))) = items (list b) \<longrightarrow>
      items (list (fst (Bubble_Update env b (getDirectoryListingMsg None)))) = items (list b))"
  by (cases "state b")
     (simp_all add: Bubble_Update_def NewStatusMessage_def forward_def Let_def split_def)

theorem error_keeps_listing_witness:
  "Bubble_Update exampleEnv idleBubble (errorMsg ''permission denied'') =
     (idleBubble\<lparr>list := exampleList\<lparr>statusMessage := ''error: permission denied''\<rparr>\<rparr>,
      statusMessageCmd ''error: permission denied'') \<and>
   items (list (fst (Bubble_Update exampleEnv idleBubble (errorMsg ''permission denied''))))
     = items exampleList \<and>
   items (list (fst (Bubble_Update exampleEnv idleBubble (getDirectoryListingMsg None))))
     = items exampleList"
  using error_keeps_listing [of exampleEnv idleBubble "''permission denied''"]
  by (simp add: model_defs example_defs)

text \<open>
  Claim C8, as amended: the text of \<open>generateHelpScreen\<close> is fixed by the title, the
  title colour, the entries, the width, the height and the renderer of the styling
  library: two calls with the same five arguments give the same text whenever the
  renderers of the two calls render alike, that is, agree on the four styles the
  function builds and on the two joins at the top position.
\<close>

theorem generateHelpScreen_two_runs:
  assumes "title1 = title2" and "titleColor1 = titleColor2" and "entries1 = entries2"
    and "width1 = width2" and "height1 = height2"
    and "rendersAlike lg1 lg2 titleColor1 width1 height1"
  shows "generateHelpScreen lg1 title1 titleColor1 entries1 width1 height1 =
         generateHelpScreen lg2 title2 titleColor2 entries2 width2 height2"
proof -
  have "helpRow lg1 = helpRow lg2"
    by (rule ext) (rule helpRow_alike [OF assms(6)])
  then have rows: "helpRows lg1 entries1 [] = helpRows lg2 entries1 []"
    by (simp add: helpRows_concat)
  show ?thesis
    using assms(6) rows
    unfolding generateHelpScreen_def Let_def assms(1-5) [symmetric]
    by (simp add: rendersAlike_def usedStyles_def)
qed

theorem generateHelpScreen_two_runs_witness:
  "rendersAlike exampleLipgloss topLipgloss exampleTitleColor 20 3 \<and>
   JoinHorizontal exampleLipgloss Bottom [''a''] \<noteq> JoinHorizontal topLipgloss Bottom [''a''] \<and>
   generateHelpScreen exampleLipgloss ''Help'' exampleTitleColor
     [\<lparr>Key = ''esc'', Description = ''close''\<rparr>] 20 3 =
   generateHelpScreen topLipgloss ''Help'' exampleTitleColor
     [\<lparr>Key = ''esc'', Description = ''close''\<rparr>] 20 3"
proof -
  have alike: "rendersAlike exampleLipgloss topLipgloss exampleTitleColor 20 3"
    by (simp add: rendersAlike_def topLipgloss_def exampleLipgloss_def)
  have "JoinHorizontal exampleLipgloss Bottom [''a''] \<noteq> JoinHorizontal topLipgloss Bottom [''a'']"
    by (simp add: topLipgloss_def exampleLipgloss_def)
  then show ?thesis
    using alike generateHelpScreen_two_runs [OF refl refl refl refl refl alike,
        of "''Help''" "[\<lparr>Key = ''esc'', Description = ''close''\<rparr>]"]
    by simp
qed

text \<open>
  The claim as it is written fails when the renderer differs between the two calls:
  the same title, title colour, entries, width and height give one text under the plain
  renderer and another under the renderer of a terminal with colours.
\<close>

theorem renderer_changes_text:
  "generateHelpScreen exampleLipgloss ''Help'' exampleTitleColor
     [\<lparr>Key = ''esc'', Description = ''close''\<rparr>] 20 3 \<noteq>
   generateHelpScreen ansiLipgloss ''Help'' exampleTitleColor
     [\<lparr>Key = ''esc'', Description = ''close''\<rparr>] 20 3"
  by (simp add: generateHelpScreen_def helpRow_def Let_def ansiLipgloss_def exampleLipgloss_def
        exampleTitleColor_def NewStyle_def Style_Border_def Style_Padding_def keyWidth_def
        white_on_dark_def)

text \<open>
  Claim C9: while the help bubble is not active, \<open>Update\<close> returns the model as it was,
  the viewport included, and the batch of no commands, for every message.
\<close>

theorem inactive_help_unchanged:
  assumes "\<not> Active m"
  shows "Model_Update viewport_Update m msg = (m, Batch [])"
  using assms by (simp add: Model_Update_def)

theorem inactive_help_unchanged_witness:
  "\<not> Active exampleHelp \<and>
   Model_Update (\<lambda>v msg. (Suc v, Some ''scroll'')) exampleHelp ''down'' = (exampleHelp, Batch [])"
  using inactive_help_unchanged [of exampleHelp "\<lambda>v msg. (Suc v, Some ''scroll'')" "''down''"]
  by (simp add: exampleHelp_def)

text \<open>
  Claim C10: \<open>GetSelectedItem\<close> returns the selected item of the list when that is an
  \<open>Item\<close>, and the empty \<open>Item\<close> when nothing is selected or the selected item is of
  another type; it has no failing branch.
\<close>

theorem GetSelectedItem_cases:
  "(SelectedItem (list b) = Some (ItemValue it) \<longrightarrow> GetSelectedItem b = it) \<and>
   (SelectedItem (list b) = None \<longrightarrow> GetSelectedItem b = emptyItem) \<and>
   (SelectedItem (list b) = Some (OtherValue v) \<longrightarrow> GetSelectedItem b = emptyItem) \<and>
   (cursor (list b) < length (items (list b)) \<and> items (list b) ! cursor (list b) = ItemValue it
      \<longrightarrow> GetSelectedItem b = it) \<and>
   (length (items (list b)) \<le> cursor (list b) \<longrightarrow> GetSelectedItem b = emptyItem)"
  by (simp add: GetSelectedItem_def SelectedItem_def)

theorem GetSelectedItem_cases_witness:
  "GetSelectedItem idleBubble = \<lparr>DisplayName = ''a.txt'', FileName = ''a.txt'', Metadata = []\<rparr> \<and>
   GetSelectedItem (idleBubble\<lparr>list := exampleList\<lparr>cursor := 7\<rparr>\<rparr>) = emptyItem \<and>
   GetSelectedItem (idleBubble\<lparr>list := exampleList\<lparr>items := [OtherValue ''x'']\<rparr>\<rparr>) = emptyItem"
  using GetSelectedItem_cases [of idleBubble
      "\<lparr>DisplayName = ''a.txt'', FileName = ''a.txt'', Metadata = []\<rparr>" "''x''"]
    GetSelectedItem_cases [of "idleBubble\<lparr>list := exampleList\<lparr>cursor := 7\<rparr>\<rparr>" emptyItem "''x''"]
    GetSelectedItem_cases [of "idleBubble\<lparr>list := exampleList\<lparr>items := [OtherValue ''x'']\<rparr>\<rparr>"
      emptyItem "''x''"]
  by (simp add: SelectedItem_def example_defs)

end
